theory Spec2Isabelle
  imports Complex_Main
begin

section \<open>Python values used by the competitor-intelligence agents\<close>

text \<open>
  The development embeds \<^verbatim>\<open>Competor_Intellengce/competitor_agent_team.py\<close>.
  Exceptions are the instances of Python's \<^verbatim>\<open>Exception\<close> that the code can meet; a
  function that may raise returns \<open>exn + 'a\<close> with \<open>Inl\<close> the raised exception.
  Strings are \<open>string\<close>; a dictionary whose keys the code reads one by one is a record
  of optional fields (an absent key is \<open>None\<close>); a dictionary of arbitrary keys
  (the decoded answer of the language model) is an association list in insertion
  order with distinct keys.
\<close>

datatype exn = JSONDecodeError | TypeError | AttributeError | IndexError | Failure string

datatype json =
    JNull
  | JBool bool
  | JInt int
  | JFloat string
  | JStr string
  | JArr "json list"
  | JObj "(string \<times> json) list"

text \<open>
  \<open>JFloat\<close> carries the literal of a number with a fraction or an exponent (and the
  literals \<^verbatim>\<open>NaN\<close>, \<^verbatim>\<open>Infinity\<close>, \<^verbatim>\<open>-Infinity\<close>); its floating-point value is not
  modelled. Python's truth value of a float is "not zero", read here off the digits of
  the mantissa; a literal whose value underflows to zero, such as \<^verbatim>\<open>1e-400\<close>, is false in
  Python and true here. Only the choice between the validation and the error message of
  \<^verbatim>\<open>generate_analysis_report\<close> depends on it, both of which end in the mock report for a
  number.
\<close>

definition is_digit :: "char \<Rightarrow> bool" where
  "is_digit c = (48 \<le> (of_char c :: nat) \<and> (of_char c :: nat) \<le> 57)"

definition digit_val :: "char \<Rightarrow> nat" where
  "digit_val c = of_char c - 48"

definition mantissa :: "string \<Rightarrow> string" where
  "mantissa lit = takeWhile (\<lambda>c. c \<noteq> CHR ''e'' \<and> c \<noteq> CHR ''E'') lit"

fun truthy :: "json \<Rightarrow> bool" where
  "truthy JNull = False"
| "truthy (JBool b) = b"
| "truthy (JInt n) = (n \<noteq> 0)"
| "truthy (JFloat lit) = (\<exists>c \<in> set (mantissa lit). c \<noteq> CHR ''0'' \<and> c \<noteq> CHR ''.'' \<and> c \<noteq> CHR ''-'')"
| "truthy (JStr s) = (s \<noteq> [])"
| "truthy (JArr xs) = (xs \<noteq> [])"
| "truthy (JObj kvs) = (kvs \<noteq> [])"

definition str_truthy :: "string option \<Rightarrow> bool" where
  "str_truthy s = (case s of None \<Rightarrow> False | Some t \<Rightarrow> t \<noteq> [])"

definition get_or :: "'a option \<Rightarrow> 'a \<Rightarrow> 'a" where
  "get_or v d = (case v of None \<Rightarrow> d | Some x \<Rightarrow> x)"

fun string_of_nat :: "nat \<Rightarrow> string" where
  "string_of_nat n =
     (if n < 10 then [char_of (48 + n)]
      else string_of_nat (n div 10) @ [char_of (48 + n mod 10)])"

declare string_of_nat.simps [simp del]

subsection \<open>Dictionaries in insertion order\<close>

fun dict_set :: "string \<Rightarrow> json \<Rightarrow> (string \<times> json) list \<Rightarrow> (string \<times> json) list" where
  "dict_set k v [] = [(k, v)]"
| "dict_set k v ((k', v') # d) = (if k = k' then (k, v) # d else (k', v') # dict_set k v d)"

definition dict_keys :: "(string \<times> json) list \<Rightarrow> string list" where
  "dict_keys d = map fst d"

definition setdefault :: "string \<Rightarrow> json \<Rightarrow> (string \<times> json) list \<Rightarrow> (string \<times> json) list" where
  "setdefault k v d = (if k \<in> set (dict_keys d) then d else d @ [(k, v)])"

fun str_contains :: "string \<Rightarrow> string \<Rightarrow> bool" where
  "str_contains [] k = (k = [])"
| "str_contains (c # cs) k = (take (length k) (c # cs) = k \<or> str_contains cs k)"

text \<open>\<^verbatim>\<open>key in value\<close>: membership in a dict, a list or a string; a TypeError otherwise.\<close>

fun py_in :: "string \<Rightarrow> json \<Rightarrow> exn + bool" where
  "py_in k (JObj d) = Inr (k \<in> set (dict_keys d))"
| "py_in k (JArr xs) = Inr (JStr k \<in> set xs)"
| "py_in k (JStr s) = Inr (str_contains s k)"
| "py_in k v = Inl TypeError"

section \<open>The JSON decoder\<close>

text \<open>
  \<^verbatim>\<open>json.loads\<close> belongs to Python's library, not to the repository. The operations
  below take the decoder as a parameter \<open>loads\<close>, so every general theorem holds for
  any decoder. \<open>json_loads\<close> is a decoder to run them on concrete texts: it follows
  the library's scanner (objects, arrays, strings with the one-character escapes,
  numbers, \<^verbatim>\<open>true\<close>, \<^verbatim>\<open>false\<close>, \<^verbatim>\<open>null\<close>, \<^verbatim>\<open>NaN\<close>, \<^verbatim>\<open>Infinity\<close>, the four white-space
  characters, a repeated key keeping its last value) except for the escape
  \<^verbatim>\<open>\u\<close>, which it rejects, and for the limits of the library on the nesting depth
  and on the number of digits of an integer, which it does not have: on a text beyond
  them the library raises an exception other than \<^verbatim>\<open>JSONDecodeError\<close>. The fuel bounds the
  number of nested calls; twice the length of the text is never used up.
\<close>

definition is_ws :: "char \<Rightarrow> bool" where
  "is_ws c = (c = CHR '' '' \<or> c = CHR 0x09 \<or> c = CHR 0x0A \<or> c = CHR 0x0D)"

definition skip_ws :: "string \<Rightarrow> string" where
  "skip_ws s = dropWhile is_ws s"

definition quote :: char where
  "quote = CHR 0x22"

definition backslash :: char where
  "backslash = CHR 0x5C"

definition unescape :: "char \<Rightarrow> char option" where
  "unescape e =
     (if e = quote then Some quote
      else if e = backslash then Some backslash
      else if e = CHR ''/'' then Some (CHR ''/'')
      else if e = CHR ''b'' then Some (CHR 0x08)
      else if e = CHR ''f'' then Some (CHR 0x0C)
      else if e = CHR ''n'' then Some (CHR 0x0A)
      else if e = CHR ''r'' then Some (CHR 0x0D)
      else if e = CHR ''t'' then Some (CHR 0x09)
      else None)"

fun scanstring :: "string \<Rightarrow> string \<Rightarrow> (string \<times> string) option" where
  "scanstring acc [] = None"
| "scanstring acc [c] = (if c = quote then Some (rev acc, []) else None)"
| "scanstring acc (c # e # cs) =
     (if c = quote then Some (rev acc, e # cs)
      else if c = backslash then
        (case unescape e of None \<Rightarrow> None | Some d \<Rightarrow> scanstring (d # acc) cs)
      else if (of_char c :: nat) < 32 then None
      else scanstring (c # acc) (e # cs))"

definition nat_of_digits :: "string \<Rightarrow> nat" where
  "nat_of_digits ds = foldl (\<lambda>a c. 10 * a + digit_val c) 0 ds"

definition scan_intpart :: "string \<Rightarrow> (string \<times> string) option" where
  "scan_intpart s =
     (case s of
        [] \<Rightarrow> None
      | c # cs \<Rightarrow>
          if c = CHR ''0'' then Some ([c], cs)
          else if is_digit c then Some (c # takeWhile is_digit cs, dropWhile is_digit cs)
          else None)"

definition scan_frac :: "string \<Rightarrow> string \<times> string" where
  "scan_frac s =
     (case s of
        [] \<Rightarrow> ([], s)
      | c # cs \<Rightarrow>
          if c = CHR ''.'' \<and> takeWhile is_digit cs \<noteq> []
          then (c # takeWhile is_digit cs, dropWhile is_digit cs)
          else ([], s))"

definition scan_exp :: "string \<Rightarrow> string \<times> string" where
  "scan_exp s =
     (case s of
        [] \<Rightarrow> ([], s)
      | c # cs \<Rightarrow>
          if c = CHR ''e'' \<or> c = CHR ''E'' then
            (case cs of
               [] \<Rightarrow> ([], s)
             | g # ds \<Rightarrow>
                 if (g = CHR ''+'' \<or> g = CHR ''-'') \<and> takeWhile is_digit ds \<noteq> []
                 then (c # g # takeWhile is_digit ds, dropWhile is_digit ds)
                 else if takeWhile is_digit cs \<noteq> []
                 then (c # takeWhile is_digit cs, dropWhile is_digit cs)
                 else ([], s))
          else ([], s))"

definition match_number :: "string \<Rightarrow> (json \<times> string) option" where
  "match_number s =
     (let (sign, r) = (case s of [] \<Rightarrow> ([], s)
                       | c # cs \<Rightarrow> if c = CHR ''-'' then ([c], cs) else ([], s))
      in case scan_intpart r of
           None \<Rightarrow> None
         | Some (ip, r1) \<Rightarrow>
             (let (frac, r2) = scan_frac r1; (ex, r3) = scan_exp r2
              in if frac = [] \<and> ex = []
                 then Some (JInt (if sign = [] then int (nat_of_digits ip)
                                  else - int (nat_of_digits ip)), r3)
                 else Some (JFloat (sign @ ip @ frac @ ex), r3)))"

definition scan_atom :: "string \<Rightarrow> (json \<times> string) option" where
  "scan_atom s =
     (if take 4 s = ''null'' then Some (JNull, drop 4 s)
      else if take 4 s = ''true'' then Some (JBool True, drop 4 s)
      else if take 5 s = ''false'' then Some (JBool False, drop 5 s)
      else if match_number s \<noteq> None then match_number s
      else if take 3 s = ''NaN'' then Some (JFloat ''NaN'', drop 3 s)
      else if take 8 s = ''Infinity'' then Some (JFloat ''Infinity'', drop 8 s)
      else if take 9 s = ''-Infinity'' then Some (JFloat ''-Infinity'', drop 9 s)
      else None)"

fun scan_once :: "nat \<Rightarrow> string \<Rightarrow> (json \<times> string) option"
  and parse_object :: "nat \<Rightarrow> (string \<times> json) list \<Rightarrow> string \<Rightarrow> (json \<times> string) option"
  and parse_array :: "nat \<Rightarrow> json list \<Rightarrow> string \<Rightarrow> (json \<times> string) option"
where
  "scan_once 0 s = None"
| "scan_once (Suc n) s =
     (case s of
        [] \<Rightarrow> None
      | c # cs \<Rightarrow>
          if c = quote then
            (case scanstring [] cs of None \<Rightarrow> None | Some (t, r) \<Rightarrow> Some (JStr t, r))
          else if c = CHR ''{'' then
            (case skip_ws cs of
               [] \<Rightarrow> None
             | d # r \<Rightarrow> if d = CHR ''}'' then Some (JObj [], r)
                        else parse_object n [] (d # r))
          else if c = CHR ''['' then
            (case skip_ws cs of
               [] \<Rightarrow> None
             | d # r \<Rightarrow> if d = CHR '']'' then Some (JArr [], r)
                        else parse_array n [] (d # r))
          else scan_atom s)"
| "parse_object 0 pairs s = None"
| "parse_object (Suc n) pairs s =
     (case s of
        [] \<Rightarrow> None
      | c # cs \<Rightarrow>
          if c \<noteq> quote then None
          else
            (case scanstring [] cs of
               None \<Rightarrow> None
             | Some (k, r1) \<Rightarrow>
                 (case skip_ws r1 of
                    [] \<Rightarrow> None
                  | c2 # r2 \<Rightarrow>
                      if c2 \<noteq> CHR '':'' then None
                      else
                        (case scan_once n (skip_ws r2) of
                           None \<Rightarrow> None
                         | Some (v, r3) \<Rightarrow>
                             (case skip_ws r3 of
                                [] \<Rightarrow> None
                              | c3 # r4 \<Rightarrow>
                                  if c3 = CHR ''}'' then Some (JObj (dict_set k v pairs), r4)
                                  else if c3 = CHR '','' then
                                    parse_object n (dict_set k v pairs) (skip_ws r4)
                                  else None)))))"
| "parse_array 0 elems s = None"
| "parse_array (Suc n) elems s =
     (case scan_once n s of
        None \<Rightarrow> None
      | Some (v, r1) \<Rightarrow>
          (case skip_ws r1 of
             [] \<Rightarrow> None
           | c # r2 \<Rightarrow>
               if c = CHR '']'' then Some (JArr (elems @ [v]), r2)
               else if c = CHR '','' then parse_array n (elems @ [v]) (skip_ws r2)
               else None))"

definition json_loads :: "string \<Rightarrow> exn + json" where
  "json_loads s =
     (case scan_once (2 * length s + 2) (skip_ws s) of
        None \<Rightarrow> Inl JSONDecodeError
      | Some (v, r) \<Rightarrow> if skip_ws r = [] then Inr v else Inl JSONDecodeError)"

section \<open>Competitor records\<close>

text \<open>
  A competitor is a dictionary with the keys \<^verbatim>\<open>name\<close>, \<^verbatim>\<open>url\<close>, \<^verbatim>\<open>description\<close>,
  \<^verbatim>\<open>summary\<close> and \<^verbatim>\<open>metadata\<close>, each of which may be absent; the scalar values are
  strings. The metadata is a dictionary with the keys \<^verbatim>\<open>technologies\<close>,
  \<^verbatim>\<open>team_size\<close> and \<^verbatim>\<open>founded\<close>; the empty dictionary has none of them.
\<close>

record metadata =
  technologies :: "string list option"
  team_size :: "string option"
  founded :: "string option"

definition empty_metadata :: metadata where
  "empty_metadata = \<lparr>technologies = None, team_size = None, founded = None\<rparr>"

record company =
  name :: "string option"
  url :: "string option"
  description :: "string option"
  summary :: "string option"
  metadata :: "metadata option"

record crawl_data =
  cd_url :: "string option"
  cd_title :: "string option"
  cd_description :: "string option"
  cd_content :: "string option"
  cd_metadata :: "metadata option"

text \<open>
  What the program shows or asks of the outside world, in the order it happens:
  the progress bar (\<^verbatim>\<open>st.progress\<close>, \<^verbatim>\<open>progress_bar.progress\<close>), the warnings and
  errors of the user interface (\<^verbatim>\<open>st.warning\<close>, \<^verbatim>\<open>st.error\<close>; a message that
  interpolates an exception keeps the text before it and the exception), and the
  calls to the collaborators. The fraction of the progress bar is Python's float
  quotient of two integers, kept here as the exact rational. \<^verbatim>\<open>print\<close> is left out.
\<close>

datatype event =
    Progress rat string
  | StWarning string
  | StError string
  | StWarningExn string exn
  | StErrorExn string exn
  | CrawlCall string
  | SummarizeCall string
  | SearchCall string
  | BackendCall string
  | TableCall

section \<open>AnalysisAgent\<close>

datatype client = OpenAI string | Anthropic string | GenerativeModel string | AzureOpenAI string string

record AnalysisAgent =
  provider :: string
  api_key :: "string option"
  model_id :: "string option"
  base_url :: "string option"
  client :: "client option"

definition BASE_URLS :: "(string \<times> string) list" where
  "BASE_URLS = [(''deepseek'', ''https://api.deepseek.com/v1'')]"

definition lower_char :: "char \<Rightarrow> char" where
  "lower_char c =
     (if 65 \<le> (of_char c :: nat) \<and> (of_char c :: nat) \<le> 90
      then char_of ((of_char c :: nat) + 32) else c)"

definition lower :: "string \<Rightarrow> string" where
  "lower s = map lower_char s"

text \<open>
  \<^verbatim>\<open>__init__\<close>. \<open>ctor_ok\<close> says whether the constructor of the vendor's client
  returns (it may raise, which leaves the client unset).
\<close>

definition AnalysisAgent_init ::
  "bool \<Rightarrow> string \<Rightarrow> string option \<Rightarrow> string option \<Rightarrow> event list \<times> AnalysisAgent" where
  "AnalysisAgent_init ctor_ok prov key model =
     (let p = lower prov;
          self = \<lparr>provider = p, api_key = key, model_id = model,
                  base_url = map_of BASE_URLS p, client = None\<rparr>
      in if \<not> str_truthy model then
           ([StWarning (''No model selected for provider: '' @ p @
                        ''. Analysis may fail or use mock data.'')], self)
         else if str_truthy key then
           (let k = the key; m = the model;
                made =
                  (if \<not> ctor_ok then Inl (Failure ''client constructor'')
                   else if p = ''openai'' then Inr (OpenAI k)
                   else if p = ''anthropic'' then Inr (Anthropic k)
                   else if p = ''google'' then Inr (GenerativeModel m)
                   else if p \<in> set (map fst BASE_URLS) then
                     (case map_of BASE_URLS p of
                        None \<Rightarrow> Inl (Failure ''Base URL required'')
                      | Some u \<Rightarrow> if u = [] then Inl (Failure ''Base URL required'')
                                  else Inr (AzureOpenAI k u))
                   else Inl (Failure ''Unsupported LLM provider specified''))
            in case made of
                 Inr c \<Rightarrow> ([], self\<lparr>client := Some c\<rparr>)
               | Inl e \<Rightarrow>
                   ([StErrorExn (''Failed to initialize LLM client for '' @ p @ '': '') e], self))
         else ([], self))"

definition newline :: char where
  "newline = CHR 0x0A"

fun prompt_blocks :: "(metadata \<Rightarrow> string) \<Rightarrow> nat \<Rightarrow> company list \<Rightarrow> string" where
  "prompt_blocks dumps i [] = []"
| "prompt_blocks dumps i (c # cs) =
     [newline] @ ''Competitor '' @ string_of_nat i @ '':'' @ [newline] @
     ''  Name: '' @ get_or (name c) ''N/A'' @ [newline] @
     ''  URL: '' @ get_or (url c) ''N/A'' @ [newline] @
     ''  Description: '' @ get_or (description c) ''N/A'' @ [newline] @
     ''  Summary: '' @ get_or (summary c) ''N/A'' @ [newline] @
     (case metadata c of
        None \<Rightarrow> []
      | Some m \<Rightarrow> ''  Metadata: '' @ dumps m @ [newline]) @
     prompt_blocks dumps (Suc i) cs"

text \<open>\<^verbatim>\<open>_generate_prompt\<close>; \<open>dumps\<close> is \<^verbatim>\<open>json.dumps\<close> on a metadata dictionary.\<close>

definition generate_prompt :: "(metadata \<Rightarrow> string) \<Rightarrow> company list \<Rightarrow> string" where
  "generate_prompt dumps company_data =
     ''Analyze the following competitor data and provide a detailed report including:'' @ [newline] @
     ''- Strengths'' @ [newline] @ ''- Weaknesses'' @ [newline] @ ''- Opportunities'' @ [newline] @
     ''- Market Gaps'' @ [newline] @
     ''- Suggested Pricing Strategies'' @ [newline] @ ''- Potential Growth Opportunities'' @ [newline] @
     ''- Actionable Recommendations'' @ [newline, newline] @
     ''Competitor Data:'' @ [newline] @
     prompt_blocks dumps 1 company_data @
     [newline] @ ''Generate the analysis strictly in JSON format with keys: '' @
     [CHR 0x27] @ ''strengths'' @ [CHR 0x27] @ '', '' @
     [CHR 0x27] @ ''weaknesses'' @ [CHR 0x27] @ '', '' @
     [CHR 0x27] @ ''opportunities'' @ [CHR 0x27] @ '', '' @
     [CHR 0x27] @ ''market_gaps'' @ [CHR 0x27] @ '', '' @
     [CHR 0x27] @ ''pricing_strategies'' @ [CHR 0x27] @ '', '' @
     [CHR 0x27] @ ''growth_opportunities'' @ [CHR 0x27] @ '', '' @
     [CHR 0x27] @ ''recommendations'' @ [CHR 0x27] @
     ''. Do not include any introductory text or explanations outside the JSON structure.''"

text \<open>
  \<^verbatim>\<open>re.search(r'\{.*\}', text, re.DOTALL)\<close>: the span from the first opening brace to
  the last closing brace after it, if there is one.
\<close>

definition brace_span :: "string \<Rightarrow> string option" where
  "brace_span s =
     (let r = dropWhile (\<lambda>c. c \<noteq> CHR ''{'') s;
          m = rev (dropWhile (\<lambda>c. c \<noteq> CHR ''}'') (rev r))
      in if m = [] then None else Some m)"

text \<open>
  \<^verbatim>\<open>_parse_llm_response\<close>. Only a JSONDecodeError is caught; another exception of the
  decoder goes on to the caller.
\<close>

definition parse_llm_response :: "(string \<Rightarrow> exn + json) \<Rightarrow> string \<Rightarrow> exn + json option" where
  "parse_llm_response loads response_text =
     (case loads response_text of
        Inr v \<Rightarrow> Inr (Some v)
      | Inl e \<Rightarrow>
          if e \<noteq> JSONDecodeError then Inl e
          else
            (case brace_span response_text of
               None \<Rightarrow> Inr None
             | Some m \<Rightarrow>
                 (case loads m of
                    Inr v \<Rightarrow> Inr (Some v)
                  | Inl e' \<Rightarrow> if e' \<noteq> JSONDecodeError then Inl e' else Inr None)))"

definition required_keys :: "string list" where
  "required_keys = [''strengths'', ''weaknesses'', ''opportunities'', ''market_gaps'',
                    ''pricing_strategies'', ''growth_opportunities'', ''recommendations'']"

text \<open>\<^verbatim>\<open>_generate_mock_report\<close>.\<close>

definition generate_mock_report :: json where
  "generate_mock_report = JObj
     [(''strengths'', JArr [JStr ''Mock: Strong online presence'', JStr ''Mock: Innovative product lineup'']),
      (''weaknesses'', JArr [JStr ''Mock: Limited market reach'', JStr ''Mock: Price point concerns'']),
      (''opportunities'', JArr [JStr ''Mock: Expand to new markets'', JStr ''Mock: Develop budget offerings'']),
      (''market_gaps'', JArr [JStr ''Mock: Underserved budget segment'']),
      (''pricing_strategies'', JArr [JStr ''Mock: Consider freemium model'']),
      (''growth_opportunities'', JArr [JStr ''Mock: International expansion'']),
      (''recommendations'', JArr [JStr ''Mock: Develop a stronger social media presence''])]"

text \<open>\<^verbatim>\<open>all(key in analysis_data for key in required_keys)\<close>, stopping at the first miss.\<close>

fun all_keys_in :: "json \<Rightarrow> string list \<Rightarrow> exn + bool" where
  "all_keys_in d [] = Inr True"
| "all_keys_in d (k # ks) =
     (case py_in k d of
        Inl e \<Rightarrow> Inl e
      | Inr b \<Rightarrow> if b then all_keys_in d ks else Inr False)"

definition fill_missing :: "(string \<times> json) list \<Rightarrow> (string \<times> json) list" where
  "fill_missing d = foldl (\<lambda>acc key. setdefault key (JArr [JStr ''N/A'']) acc) d required_keys"

text \<open>The validation of a decoded answer (the body of \<^verbatim>\<open>if analysis_data:\<close>).\<close>

definition validate_analysis :: "json \<Rightarrow> event list \<times> (exn + json)" where
  "validate_analysis analysis_data =
     (case all_keys_in analysis_data required_keys of
        Inl e \<Rightarrow> ([], Inl e)
      | Inr ok \<Rightarrow>
          if ok then ([], Inr analysis_data)
          else
            (case analysis_data of
               JObj d \<Rightarrow>
                 ([StWarning ''LLM response missing some expected analysis keys. Results might be incomplete.''],
                  Inr (JObj (fill_missing d)))
             | _ \<Rightarrow>
                 ([StWarning ''LLM response missing some expected analysis keys. Results might be incomplete.''],
                  Inl AttributeError)))"

text \<open>
  The backend: \<open>chat c m prompt\<close> is what the call on client \<open>c\<close> with model \<open>m\<close>
  gives back, an exception or the text of the answer (\<open>None\<close> when the vendor's
  answer has no text).
\<close>

type_synonym backend = "client \<Rightarrow> string \<Rightarrow> string \<Rightarrow> exn + string option"

definition known_provider :: "string \<Rightarrow> bool" where
  "known_provider p =
     (p = ''openai'' \<or> p = ''anthropic'' \<or> p = ''google'' \<or> p \<in> set (map fst BASE_URLS))"

text \<open>The body of the \<^verbatim>\<open>try\<close> of \<^verbatim>\<open>generate_analysis_report\<close>.\<close>

definition analysis_try ::
  "(string \<Rightarrow> exn + json) \<Rightarrow> backend \<Rightarrow> AnalysisAgent \<Rightarrow> string \<Rightarrow> event list \<times> (exn + json)" where
  "analysis_try loads chat self prompt =
     (let (ev1, resp) =
            (if known_provider (provider self)
             then ([BackendCall prompt], chat (the (client self)) (the (model_id self)) prompt)
             else ([], Inr None))
      in case resp of
           Inl e \<Rightarrow> (ev1, Inl e)
         | Inr analysis_json_str \<Rightarrow>
             if str_truthy analysis_json_str then
               (case parse_llm_response loads (the analysis_json_str) of
                  Inl e \<Rightarrow> (ev1, Inl e)
                | Inr parsed \<Rightarrow>
                    (case parsed of
                       None \<Rightarrow>
                         (ev1 @ [StError (''Could not parse valid JSON from '' @ provider self @ '' response.'')],
                          Inr generate_mock_report)
                     | Some analysis_data \<Rightarrow>
                         if truthy analysis_data then
                           (let (ev2, r) = validate_analysis analysis_data in (ev1 @ ev2, r))
                         else
                           (ev1 @ [StError (''Could not parse valid JSON from '' @ provider self @ '' response.'')],
                            Inr generate_mock_report)))
             else
               (ev1 @ [StError (''Received empty response from '' @ provider self @ ''.'')],
                Inr generate_mock_report))"

definition unconfigured :: "AnalysisAgent \<Rightarrow> bool" where
  "unconfigured self = (client self = None \<or> \<not> str_truthy (model_id self) \<or> \<not> str_truthy (api_key self))"

definition generate_analysis_report ::
  "(string \<Rightarrow> exn + json) \<Rightarrow> (metadata \<Rightarrow> string) \<Rightarrow> backend \<Rightarrow> AnalysisAgent \<Rightarrow> company list
     \<Rightarrow> event list \<times> json" where
  "generate_analysis_report loads dumps chat self company_data =
     (if unconfigured self then
        ([StWarning ''LLM provider not configured correctly (check API key/model selection). Using mock analysis data.''],
         generate_mock_report)
      else
        (let prompt = generate_prompt dumps company_data
         in case analysis_try loads chat self prompt of
              (evs, Inr report) \<Rightarrow> (evs, report)
            | (evs, Inl e) \<Rightarrow>
                (evs @ [StErrorExn (''Error generating analysis report with '' @ provider self @ '': '') e],
                 generate_mock_report)))"

section \<open>ComparisonAgent\<close>

record row =
  Company :: string
  Website :: string
  Description :: string
  Summary :: string
  Technologies :: string
  Team_Size :: string
  Founded :: string

record DataFrame =
  columns :: "string list"
  rows :: "row list"

fun join :: "string \<Rightarrow> string list \<Rightarrow> string" where
  "join sep [] = []"
| "join sep [x] = x"
| "join sep (x # y # xs) = x @ sep @ join sep (y # xs)"

definition comparison_row :: "company \<Rightarrow> row" where
  "comparison_row c =
     (let md = get_or (metadata c) empty_metadata
      in \<lparr>Company = get_or (name c) ''Unknown'',
          Website = get_or (url c) ''N/A'',
          Description = take 100 (get_or (description c) ''N/A'') @ ''...'',
          Summary = take 100 (get_or (summary c) ''N/A'') @ ''...'',
          Technologies = join '', '' (get_or (technologies md) [''N/A'']),
          Team_Size = get_or (team_size md) ''N/A'',
          Founded = get_or (founded md) ''N/A''\<rparr>)"

definition table_columns :: "string list" where
  "table_columns = [''Company'', ''Website'', ''Description'', ''Summary'', ''Technologies'',
                    ''Team Size'', ''Founded'']"

definition create_comparison_table :: "company list \<Rightarrow> DataFrame" where
  "create_comparison_table company_data =
     (let data = map comparison_row company_data
      in if data = [] then \<lparr>columns = table_columns, rows = []\<rparr>
         else \<lparr>columns = table_columns, rows = data\<rparr>)"

section \<open>The crawler and the search of the repository\<close>

text \<open>
  \<^verbatim>\<open>FirecrawlAgent\<close> and \<^verbatim>\<open>ExaSearchAgent\<close> as the file has them. The team's operations
  below take the crawler, the summarizer and the search as parameters, since the
  two classes stand for external services.
\<close>

fun split_str :: "string \<Rightarrow> string \<Rightarrow> string \<Rightarrow> string list" where
  "split_str sep cur [] = [rev cur]"
| "split_str sep cur (c # cs) =
     (if sep \<noteq> [] \<and> take (length sep) (c # cs) = sep
      then rev cur # split_str sep [] (drop (length sep - 1) cs)
      else split_str sep (c # cur) cs)"

definition upper_char :: "char \<Rightarrow> char" where
  "upper_char c =
     (if 97 \<le> (of_char c :: nat) \<and> (of_char c :: nat) \<le> 122
      then char_of ((of_char c :: nat) - 32) else c)"

definition capitalize :: "string \<Rightarrow> string" where
  "capitalize s = (case s of [] \<Rightarrow> [] | c # cs \<Rightarrow> upper_char c # lower cs)"

definition crawl_website :: "string \<Rightarrow> exn + crawl_data" where
  "crawl_website u =
     (case split_str ''://'' [] u of
        a # b # rest \<Rightarrow>
          (case split_str ''.'' [] b of
             [] \<Rightarrow> Inl IndexError
           | h # t \<Rightarrow>
               Inr \<lparr>cd_url = Some u,
                    cd_title = Some (''Website for '' @ capitalize h),
                    cd_description = Some ''A company specializing in services and products.'',
                    cd_content = Some ''Lorem ipsum dolor sit amet, consectetur adipiscing elit. Sed do eiusmod tempor incididunt ut labore et dolore magna aliqua.'',
                    cd_metadata = Some \<lparr>technologies = Some [''React'', ''AWS'', ''MongoDB''],
                                        team_size = Some ''50-200'', founded = Some ''2015''\<rparr>\<rparr>)
      | _ \<Rightarrow> Inl IndexError)"

definition summarize_content :: "string \<Rightarrow> exn + string" where
  "summarize_content content = Inr ''This company provides various products and services in the technology sector, focusing on innovation and customer satisfaction.''"

definition candidate :: "string \<Rightarrow> string \<Rightarrow> string \<Rightarrow> company" where
  "candidate n u d = \<lparr>name = Some n, url = Some u, description = Some d,
                      summary = None, metadata = None\<rparr>"

definition py_prefix :: "int \<Rightarrow> 'a list \<Rightarrow> 'a list" where
  "py_prefix k xs = (if 0 \<le> k then take (nat k) xs else take (nat (int (length xs) + k)) xs)"

definition find_similar_companies :: "int \<Rightarrow> string \<Rightarrow> exn + company list" where
  "find_similar_companies count company_description =
     Inr (py_prefix count
       [candidate ''CompetitorA'' ''https://competitora.com'' ''A leading provider in the industry'',
        candidate ''CompetitorB'' ''https://competitorb.com'' ''An innovative startup disrupting the market'',
        candidate ''CompetitorC'' ''https://competitorc.com'' ''A well-established player with global reach'',
        candidate ''CompetitorD'' ''https://competitord.com'' ''A niche specialist with unique offerings'',
        candidate ''CompetitorE'' ''https://competitore.com'' ''A fast-growing company with cutting-edge tech''])"

section \<open>CompetitorIntelligenceTeam\<close>

definition crawl_failed :: "company \<Rightarrow> company" where
  "crawl_failed competitor =
     competitor\<lparr>summary := Some ''Crawling failed'', metadata := Some empty_metadata\<rparr>"

text \<open>
  One turn of the loop of \<^verbatim>\<open>discover_competitors\<close> on the competitor at index \<open>i\<close>
  of \<open>num_competitors\<close>: the events it causes and the competitor as appended.
\<close>

definition enrich_one ::
  "(string \<Rightarrow> exn + crawl_data) \<Rightarrow> (string \<Rightarrow> exn + string) \<Rightarrow> nat \<Rightarrow> nat \<Rightarrow> company
     \<Rightarrow> event list \<times> company" where
  "enrich_one crawl summarize num_competitors i competitor =
     (let nm = get_or (name competitor) ''Unknown'';
          progress_text = ''Crawling '' @ nm @ '' ('' @ string_of_nat (i + 1) @ ''/'' @
                          string_of_nat num_competitors @ '')...'';
          ev = Progress (of_nat (i + 1) / of_nat num_competitors) progress_text
      in if str_truthy (url competitor) then
           (let u = the (url competitor);
                msg = ''Could not crawl '' @ nm @ '' ('' @ u @ ''): ''
            in case crawl u of
                 Inl e \<Rightarrow> ([ev, CrawlCall u, StWarningExn msg e], crawl_failed competitor)
               | Inr crawl_data \<Rightarrow>
                   (let content = get_or (cd_content crawl_data) []
                    in case summarize content of
                         Inl e \<Rightarrow>
                           ([ev, CrawlCall u, SummarizeCall content, StWarningExn msg e],
                            crawl_failed competitor)
                       | Inr s \<Rightarrow>
                           ([ev, CrawlCall u, SummarizeCall content],
                            competitor\<lparr>summary := Some s,
                                        metadata := Some (get_or (cd_metadata crawl_data) empty_metadata)\<rparr>)))
         else
           ([ev], competitor\<lparr>summary := Some ''No URL provided'', metadata := Some empty_metadata\<rparr>))"

fun enrich_loop ::
  "(string \<Rightarrow> exn + crawl_data) \<Rightarrow> (string \<Rightarrow> exn + string) \<Rightarrow> nat \<Rightarrow> nat \<Rightarrow> company list
     \<Rightarrow> company list \<Rightarrow> event list \<times> company list" where
  "enrich_loop crawl summarize num_competitors i [] enriched_competitors = ([], enriched_competitors)"
| "enrich_loop crawl summarize num_competitors i (competitor # rest) enriched_competitors =
     (let (ev1, c) = enrich_one crawl summarize num_competitors i competitor;
          (ev2, r) = enrich_loop crawl summarize num_competitors (Suc i) rest
                       (enriched_competitors @ [c])
      in (ev1 @ ev2, r))"

definition has_scheme :: "string \<Rightarrow> bool" where
  "has_scheme s = (take 7 s = ''http://'' \<or> take 8 s = ''https://'')"

text \<open>
  The part of \<^verbatim>\<open>discover_competitors\<close> after the description is known: the search and
  the enrichment of what it finds.
\<close>

definition search_and_enrich ::
  "(string \<Rightarrow> exn + crawl_data) \<Rightarrow> (string \<Rightarrow> exn + string) \<Rightarrow> (string \<Rightarrow> exn + company list)
     \<Rightarrow> event list \<Rightarrow> string \<Rightarrow> event list \<times> (exn + company list)" where
  "search_and_enrich crawl summarize find_similar evs descr =
     (if descr = [] then
        (evs @ [StError ''Cannot search for competitors without a description or URL.''], Inr [])
      else
        (case find_similar descr of
           Inl e \<Rightarrow> (evs @ [SearchCall descr], Inl e)
         | Inr competitors \<Rightarrow>
             (let evs1 = evs @ [SearchCall descr, Progress 0 ''Crawling competitor websites...''];
                  num_competitors = length competitors
              in if num_competitors = 0 then
                   (evs1 @ [Progress 1 ''No competitors found to crawl.''], Inr [])
                 else
                   (let (evs2, enriched) = enrich_loop crawl summarize num_competitors 0 competitors []
                    in (evs1 @ evs2 @ [Progress 1 ''Competitor crawling complete.''], Inr enriched)))))"

definition discover_competitors ::
  "(string \<Rightarrow> exn + crawl_data) \<Rightarrow> (string \<Rightarrow> exn + string) \<Rightarrow> (string \<Rightarrow> exn + company list)
     \<Rightarrow> string \<Rightarrow> bool \<Rightarrow> event list \<times> (exn + company list)" where
  "discover_competitors crawl summarize find_similar input_text is_url =
     (if is_url then
        (if \<not> has_scheme input_text then
           ([StError ''Invalid URL provided. Please include http:// or https://''], Inr [])
         else
           (case crawl input_text of
              Inl e \<Rightarrow> ([CrawlCall input_text], Inl e)
            | Inr company_data \<Rightarrow>
                (let d = get_or (cd_description company_data) []
                 in if d = [] then
                      search_and_enrich crawl summarize find_similar
                        [CrawlCall input_text,
                         StWarning ''Could not extract description from website for competitor search.'']
                        (get_or (cd_title company_data) [])
                    else
                      search_and_enrich crawl summarize find_similar [CrawlCall input_text] d)))
      else search_and_enrich crawl summarize find_similar [] input_text)"

record IntelligenceReport =
  competitors :: "company list"
  analysis :: json
  comparison_table :: DataFrame

definition generate_intelligence_report ::
  "(string \<Rightarrow> exn + json) \<Rightarrow> (metadata \<Rightarrow> string) \<Rightarrow> backend \<Rightarrow> AnalysisAgent \<Rightarrow> company list
     \<Rightarrow> event list \<times> IntelligenceReport" where
  "generate_intelligence_report loads dumps chat analysis_agent comps =
     (if comps = [] then
        ([], \<lparr>competitors = [], analysis = JObj [], comparison_table = \<lparr>columns = [], rows = []\<rparr>\<rparr>)
      else
        (let (ev1, a) =
               (if client analysis_agent = None then
                  ([StError ''Analysis agent not configured. Please check API keys in sidebar.''],
                   generate_mock_report)
                else generate_analysis_report loads dumps chat analysis_agent comps)
         in (ev1 @ [TableCall],
             \<lparr>competitors = comps, analysis = a,
              comparison_table = create_comparison_table comps\<rparr>)))"

section \<open>Collaborators to run the operations on concrete inputs\<close>

text \<open>
  \<^verbatim>\<open>json.dumps\<close> on a metadata dictionary whose keys were inserted in the order
  \<^verbatim>\<open>technologies\<close>, \<^verbatim>\<open>team_size\<close>, \<^verbatim>\<open>founded\<close> (the order of the repository's crawler),
  with the library's default separators and its ASCII escapes.
\<close>

definition hex_digit :: "nat \<Rightarrow> char" where
  "hex_digit n = (if n < 10 then char_of (48 + n) else char_of (87 + n))"

definition escape_char :: "char \<Rightarrow> string" where
  "escape_char c =
     (if c = quote then [backslash, quote]
      else if c = backslash then [backslash, backslash]
      else if c = CHR 0x0A then [backslash, CHR ''n'']
      else if c = CHR 0x0D then [backslash, CHR ''r'']
      else if c = CHR 0x09 then [backslash, CHR ''t'']
      else if c = CHR 0x08 then [backslash, CHR ''b'']
      else if c = CHR 0x0C then [backslash, CHR ''f'']
      else if 32 \<le> (of_char c :: nat) \<and> (of_char c :: nat) \<le> 126 then [c]
      else [backslash] @ ''u00'' @
           [hex_digit ((of_char c :: nat) div 16), hex_digit ((of_char c :: nat) mod 16)])"

definition dumps_str :: "string \<Rightarrow> string" where
  "dumps_str s = [quote] @ concat (map escape_char s) @ [quote]"

definition dumps_list :: "string list \<Rightarrow> string" where
  "dumps_list xs = ''['' @ join '', '' (map dumps_str xs) @ '']''"

definition json_dumps :: "metadata \<Rightarrow> string" where
  "json_dumps m =
     ''{'' @
     join '', ''
       ((case technologies m of
           None \<Rightarrow> []
         | Some ts \<Rightarrow> [dumps_str ''technologies'' @ '': '' @ dumps_list ts]) @
        (case team_size m of
           None \<Rightarrow> []
         | Some t \<Rightarrow> [dumps_str ''team_size'' @ '': '' @ dumps_str t]) @
        (case founded m of
           None \<Rightarrow> []
         | Some f \<Rightarrow> [dumps_str ''founded'' @ '': '' @ dumps_str f])) @
     ''}''"

text \<open>A backend whose answer is the text \<open>t\<close>, and one whose call raises \<open>e\<close>.\<close>

definition answers :: "string \<Rightarrow> backend" where
  "answers t c m prompt = Inr (Some t)"

definition raises :: "exn \<Rightarrow> backend" where
  "raises e c m prompt = Inl e"

text \<open>An agent configured for OpenAI, and one built without an API key.\<close>

definition openai_agent :: AnalysisAgent where
  "openai_agent = snd (AnalysisAgent_init True ''OpenAI'' (Some ''sk-key'') (Some ''gpt-4o''))"

definition keyless_agent :: AnalysisAgent where
  "keyless_agent = snd (AnalysisAgent_init True ''OpenAI'' None (Some ''gpt-4o''))"

text \<open>
  The repository's crawler when the site \<open>down\<close> cannot be reached: the call on that
  URL raises, every other call is \<^verbatim>\<open>crawl_website\<close>.
\<close>

definition crawl_unreachable :: "string \<Rightarrow> string \<Rightarrow> exn + crawl_data" where
  "crawl_unreachable down u = (if u = down then Inl (Failure ''connection refused'') else crawl_website u)"

text \<open>The progress signals among the events, as pairs of fraction and label.\<close>

fun progress_of :: "event list \<Rightarrow> (rat \<times> string) list" where
  "progress_of [] = []"
| "progress_of (Progress f t # evs) = (f, t) # progress_of evs"
| "progress_of (ev # evs) = progress_of evs"

definition progress_text :: "company \<Rightarrow> nat \<Rightarrow> nat \<Rightarrow> string" where
  "progress_text competitor i num_competitors =
     ''Crawling '' @ get_or (name competitor) ''Unknown'' @ '' ('' @ string_of_nat (i + 1) @ ''/'' @
     string_of_nat num_competitors @ '')...''"

section \<open>Properties of the analysis report\<close>


lemma setdefault_keys:
  "set (dict_keys (setdefault k v d)) = insert k (set (dict_keys d))"
  by (auto simp: setdefault_def dict_keys_def)



lemma map_of_setdefault:
  "map_of (setdefault k v d) x =
     (if x = k \<and> k \<notin> set (dict_keys d) then Some v else map_of d x)"
proof (cases "k \<in> set (dict_keys d)")
  case True
  then show ?thesis by (simp add: setdefault_def)
next
  case False
  then have "map_of d k = None"
    by (simp add: dict_keys_def map_of_eq_None_iff)
  then show ?thesis
    using False by (simp add: setdefault_def map_add_def split: option.splits)
qed

lemma map_of_fold_setdefault:
  "map_of (foldl (\<lambda>acc key. setdefault key v acc) d ks) x =
     (if x \<in> set ks \<and> x \<notin> set (dict_keys d) then Some v else map_of d x)"
proof (induction ks arbitrary: d)
  case Nil
  then show ?case by simp
next
  case (Cons k ks)
  show ?case
    by (auto simp: Cons.IH map_of_setdefault setdefault_keys)
qed

lemma map_of_fill_missing:
  "map_of (fill_missing d) x =
     (if x \<in> set required_keys \<and> x \<notin> set (dict_keys d) then Some (JArr [JStr ''N/A'']) else map_of d x)"
  unfolding fill_missing_def by (rule map_of_fold_setdefault)




lemma openai_agent_eq:
  "openai_agent = \<lparr>provider = ''openai'', api_key = Some ''sk-key'', model_id = Some ''gpt-4o'',
                    base_url = None, client = Some (OpenAI ''sk-key'')\<rparr>"
  by code_simp

lemma keyless_agent_eq:
  "keyless_agent = \<lparr>provider = ''openai'', api_key = None, model_id = Some ''gpt-4o'',
                     base_url = None, client = None\<rparr>"
  by code_simp

lemma openai_agent_ready:
  "\<not> unconfigured openai_agent" "known_provider (provider openai_agent)"
  by (simp_all add: openai_agent_eq unconfigured_def str_truthy_def known_provider_def)

lemma keyless_agent_unconfigured:
  "unconfigured keyless_agent"
  by (simp add: keyless_agent_eq unconfigured_def)

lemma all_keys_in_dict:
  "all_keys_in (JObj d) ks = Inr (set ks \<subseteq> set (dict_keys d))"
  by (induction ks) auto

lemma fold_setdefault_append:
  "distinct ks \<Longrightarrow>
   foldl (\<lambda>acc key. setdefault key v acc) d ks =
     d @ map (\<lambda>k. (k, v)) (filter (\<lambda>k. k \<notin> set (dict_keys d)) ks)"
proof (induction ks arbitrary: d)
  case Nil
  then show ?case by simp
next
  case (Cons k ks)
  have ih: "foldl (\<lambda>acc key. setdefault key v acc) d' ks =
              d' @ map (\<lambda>k. (k, v)) (filter (\<lambda>k. k \<notin> set (dict_keys d')) ks)" for d'
    using Cons.prems by (simp add: Cons.IH)
  show ?case
  proof (cases "k \<in> set (dict_keys d)")
    case True
    then show ?thesis
      by (simp add: ih) (simp add: setdefault_def)
  next
    case False
    have f: "filter (\<lambda>x. x \<notin> set (dict_keys (d @ [(k, v)]))) ks =
             filter (\<lambda>x. x \<notin> set (dict_keys d)) ks"
      using Cons.prems by (auto simp: dict_keys_def intro: filter_cong)
    have s: "setdefault k v d = d @ [(k, v)]"
      using False by (simp add: setdefault_def)
    show ?thesis
      using False by (simp add: ih s f)
  qed
qed

lemma fill_missing_append:
  "fill_missing d =
     d @ map (\<lambda>k. (k, JArr [JStr ''N/A''])) (filter (\<lambda>k. k \<notin> set (dict_keys d)) required_keys)"
  unfolding fill_missing_def
  by (rule fold_setdefault_append) (simp add: required_keys_def)

lemma mock_value_not_placeholder:
  "k \<in> set required_keys \<Longrightarrow> generate_mock_report = JObj m \<Longrightarrow> map_of m k \<noteq> Some (JArr [JStr ''N/A''])"
  by (auto simp: required_keys_def generate_mock_report_def)







text \<open>
  A backend that answers the JSON list of the seven names gets that list back as the
  report, and one that answers a JSON string in which the seven names occur gets that
  string back.
\<close>

lemma list_answer_is_returned:
  \<open>snd (generate_analysis_report json_loads json_dumps
          (answers ''["strengths","weaknesses","opportunities","market_gaps","pricing_strategies","growth_opportunities","recommendations"]'')
          openai_agent []) =
   JArr [JStr ''strengths'', JStr ''weaknesses'', JStr ''opportunities'', JStr ''market_gaps'',
         JStr ''pricing_strategies'', JStr ''growth_opportunities'', JStr ''recommendations'']\<close>
  by code_simp

lemma string_answer_is_returned:
  \<open>snd (generate_analysis_report json_loads json_dumps
          (answers ''"strengths weaknesses opportunities market_gaps pricing_strategies growth_opportunities recommendations"'')
          openai_agent []) =
   JStr ''strengths weaknesses opportunities market_gaps pricing_strategies growth_opportunities recommendations''\<close>
  by code_simp




text \<open>
  Claim C8. On an agent whose client, model or API key is unset,
  \<^verbatim>\<open>generate_analysis_report\<close> returns the mock report after a single warning and no call
  to the backend, whatever the records, the backend and the decoder are: two calls
  that differ in all of them return the same.
\<close>

theorem unconfigured_returns_mock:
  assumes "unconfigured self"
  shows "generate_analysis_report loads dumps chat self company_data =
           ([StWarning ''LLM provider not configured correctly (check API key/model selection). Using mock analysis data.''],
            generate_mock_report)
         \<and> generate_analysis_report loads' dumps' chat' self company_data' =
           generate_analysis_report loads dumps chat self company_data"
  using assms by (simp add: generate_analysis_report_def)

theorem unconfigured_returns_mock_witness:
  \<open>unconfigured keyless_agent \<and>
   generate_analysis_report json_loads json_dumps (answers ''{"strengths":["x"]}'') keyless_agent
     [candidate ''A'' ''https://a.com'' ''first''] =
     ([StWarning ''LLM provider not configured correctly (check API key/model selection). Using mock analysis data.''],
      generate_mock_report) \<and>
   generate_analysis_report json_loads json_dumps (raises TypeError) keyless_agent [] =
   generate_analysis_report json_loads json_dumps (answers ''{"strengths":["x"]}'') keyless_agent
     [candidate ''A'' ''https://a.com'' ''first'']\<close>
  using keyless_agent_unconfigured
    unconfigured_returns_mock [OF keyless_agent_unconfigured, of json_loads json_dumps
      "answers ''{\"strengths\":[\"x\"]}''" "[candidate ''A'' ''https://a.com'' ''first'']"
      json_loads json_dumps "raises TypeError" "[]"]
  by blast

text \<open>
  Claim C2, as amended. On an empty list of records \<^verbatim>\<open>generate_intelligence_report\<close>
  returns a report whose competitors are empty, whose analysis is the empty dictionary
  (none of the seven keys) and whose comparison table has no rows and no columns; no
  event happens, so neither the backend nor the comparison builder is called.
\<close>

theorem empty_records_report:
  "generate_intelligence_report loads dumps chat analysis_agent [] =
     ([], \<lparr>competitors = [], analysis = JObj [],
           comparison_table = \<lparr>columns = [], rows = []\<rparr>\<rparr>)"
  by (simp add: generate_intelligence_report_def)

text \<open>
  Claim C2 as stated fails: the analysis of the report for no records lacks the key
  \<^verbatim>\<open>strengths\<close> and is not the mock report.
\<close>

theorem empty_records_analysis_has_no_keys:
  \<open>py_in ''strengths''
     (analysis (snd (generate_intelligence_report json_loads json_dumps (answers ''{}'')
                      openai_agent []))) = Inr False
   \<and> analysis (snd (generate_intelligence_report json_loads json_dumps (answers ''{}'')
                      openai_agent [])) \<noteq> generate_mock_report\<close>
  by (simp add: generate_intelligence_report_def dict_keys_def generate_mock_report_def)

section \<open>Fallback, repair and recovery of the analysis\<close>





lemma brace_span_noise:
  assumes "CHR ''{'' \<notin> set pre" and "CHR ''}'' \<notin> set post"
  shows "brace_span (pre @ CHR ''{'' # mid @ CHR ''}'' # post) = Some (CHR ''{'' # mid @ [CHR ''}''])"
proof -
  have 1: "dropWhile (\<lambda>c. c \<noteq> CHR ''{'') (pre @ CHR ''{'' # mid @ CHR ''}'' # post)
             = CHR ''{'' # mid @ CHR ''}'' # post"
    using assms(1) by (subst dropWhile_append2) auto
  have 2: "dropWhile (\<lambda>c. c \<noteq> CHR ''}'') (rev post @ CHR ''}'' # rev mid @ [CHR ''{''])
             = CHR ''}'' # rev mid @ [CHR ''{'']"
    using assms(2) by (subst dropWhile_append2) auto
  show ?thesis
    unfolding brace_span_def Let_def 1 by (simp add: 2)
qed

lemma brace_span_object:
  "brace_span (CHR ''{'' # mid @ [CHR ''}'']) = Some (CHR ''{'' # mid @ [CHR ''}''])"
  using brace_span_noise [of "[]" "[]" mid] by simp

lemma parse_llm_response_object:
  "parse_llm_response loads (CHR ''{'' # mid @ [CHR ''}'']) =
     (case loads (CHR ''{'' # mid @ [CHR ''}'']) of
        Inr v \<Rightarrow> Inr (Some v)
      | Inl e \<Rightarrow> if e = JSONDecodeError then Inr None else Inl e)"
  by (simp add: parse_llm_response_def brace_span_object split: sum.splits)

text \<open>
  Claim C6, as amended. Let \<open>J\<close> be a text that starts with an opening brace and ends with a
  closing brace, surrounded by noise without braces. When the decoding of the noisy text
  as it is raises \<^verbatim>\<open>JSONDecodeError\<close>, \<^verbatim>\<open>_parse_llm_response\<close> gives for the noisy text what
  it gives for \<open>J\<close> alone, and \<^verbatim>\<open>generate_analysis_report\<close> returns the same for a backend
  answering the noisy text and for one answering \<open>J\<close>. When that decoding raises another
  exception, the recovery is not tried: \<^verbatim>\<open>_parse_llm_response\<close> raises it and the report
  is the mock report.
\<close>

theorem noisy_response_recovers_object:
  assumes "CHR ''{'' \<notin> set pre" and "CHR ''}'' \<notin> set pre"
    and "CHR ''{'' \<notin> set post" and "CHR ''}'' \<notin> set post"
    and "J = CHR ''{'' # mid @ [CHR ''}'']"
  shows "(loads (pre @ J @ post) = Inl JSONDecodeError \<longrightarrow>
            parse_llm_response loads (pre @ J @ post) = parse_llm_response loads J
          \<and> generate_analysis_report loads dumps (answers (pre @ J @ post)) self company_data =
            generate_analysis_report loads dumps (answers J) self company_data)
       \<and> (\<forall>e. loads (pre @ J @ post) = Inl e \<and> e \<noteq> JSONDecodeError \<longrightarrow>
            parse_llm_response loads (pre @ J @ post) = Inl e
          \<and> snd (generate_analysis_report loads dumps (answers (pre @ J @ post)) self company_data) =
            generate_mock_report)"
proof (intro conjI allI impI)
  assume l: "loads (pre @ J @ post) = Inl JSONDecodeError"
  have span: "brace_span (pre @ J @ post) = Some J"
    using brace_span_noise [OF assms(1) assms(4), of mid] assms(5) by simp
  show p: "parse_llm_response loads (pre @ J @ post) = parse_llm_response loads J"
    unfolding assms(5) parse_llm_response_object
    using l span unfolding assms(5)
    by (simp add: parse_llm_response_def split: sum.splits)
  have ne: "pre @ J @ post \<noteq> []" "J \<noteq> []"
    using assms(5) by simp_all
  have "analysis_try loads (answers (pre @ J @ post)) self prompt =
        analysis_try loads (answers J) self prompt" for prompt
    using p ne by (simp add: analysis_try_def answers_def str_truthy_def)
  then show "generate_analysis_report loads dumps (answers (pre @ J @ post)) self company_data =
             generate_analysis_report loads dumps (answers J) self company_data"
    by (simp add: generate_analysis_report_def)
next
  fix e
  assume l: "loads (pre @ J @ post) = Inl e \<and> e \<noteq> JSONDecodeError"
  show p: "parse_llm_response loads (pre @ J @ post) = Inl e"
    using l by (simp add: parse_llm_response_def)
  have ne: "pre @ J @ post \<noteq> []"
    using assms(5) by simp
  have "snd (analysis_try loads (answers (pre @ J @ post)) self (generate_prompt dumps company_data))
          = Inl e
        \<or> snd (analysis_try loads (answers (pre @ J @ post)) self (generate_prompt dumps company_data))
          = Inr generate_mock_report"
    using p ne by (simp add: analysis_try_def answers_def str_truthy_def)
  then show "snd (generate_analysis_report loads dumps (answers (pre @ J @ post)) self company_data) =
             generate_mock_report"
    by (cases "analysis_try loads (answers (pre @ J @ post)) self (generate_prompt dumps company_data)")
       (auto simp: generate_analysis_report_def Let_def split: sum.splits)
qed

theorem noisy_response_recovers_object_witness:
  \<open>CHR ''{'' \<notin> set ''prefix noise '' \<and> CHR ''}'' \<notin> set ''prefix noise '' \<and>
   CHR ''{'' \<notin> set '' suffix noise'' \<and> CHR ''}'' \<notin> set '' suffix noise'' \<and>
   json_loads (''prefix noise '' @ ''{"strengths":["x"]}'' @ '' suffix noise'') = Inl JSONDecodeError \<and>
   parse_llm_response json_loads (''prefix noise '' @ ''{"strengths":["x"]}'' @ '' suffix noise'') =
     parse_llm_response json_loads ''{"strengths":["x"]}'' \<and>
   generate_analysis_report json_loads json_dumps
     (answers (''prefix noise '' @ ''{"strengths":["x"]}'' @ '' suffix noise'')) openai_agent [] =
   generate_analysis_report json_loads json_dumps (answers ''{"strengths":["x"]}'') openai_agent []\<close>
proof -
  have h1: "CHR ''{'' \<notin> set ''prefix noise ''" and h2: "CHR ''}'' \<notin> set ''prefix noise ''"
    and h3: "CHR ''{'' \<notin> set '' suffix noise''" and h4: "CHR ''}'' \<notin> set '' suffix noise''"
    by simp_all
  have h5: \<open>''{"strengths":["x"]}'' = CHR ''{'' # ''"strengths":["x"]'' @ [CHR ''}'']\<close>
    by simp
  have h6: \<open>json_loads (''prefix noise '' @ ''{"strengths":["x"]}'' @ '' suffix noise'') = Inl JSONDecodeError\<close>
    by code_simp
  show ?thesis
    using h1 h2 h3 h4 h6
      noisy_response_recovers_object
        [where loads = json_loads and dumps = json_dumps and self = openai_agent
           and company_data = "[]", OF h1 h2 h3 h4 h5, THEN conjunct1, rule_format, OF h6]
    by blast
qed

text \<open>
  Claim C6 as stated fails: the noise \<^verbatim>\<open>[\<close> and \<^verbatim>\<open>]\<close> has no brace, the noisy text is
  itself JSON (a list holding the object), the direct decoding succeeds and the recovery
  is never tried; the report is then the mock report and not the repaired object.
\<close>

theorem bracket_noise_changes_result:
  \<open>parse_llm_response json_loads (''['' @ ''{"strengths":["x"]}'' @ '']'') =
     Inr (Some (JArr [JObj [(''strengths'', JArr [JStr ''x''])]])) \<and>
   parse_llm_response json_loads ''{"strengths":["x"]}'' =
     Inr (Some (JObj [(''strengths'', JArr [JStr ''x''])])) \<and>
   snd (generate_analysis_report json_loads json_dumps
          (answers (''['' @ ''{"strengths":["x"]}'' @ '']'')) openai_agent []) \<noteq>
   snd (generate_analysis_report json_loads json_dumps
          (answers ''{"strengths":["x"]}'') openai_agent [])\<close>
  by code_simp

text \<open>
  Claim C5, as amended. On a configured agent, when the answer of the backend decodes to a
  non-empty JSON object that lacks some of the seven required keys,
  \<^verbatim>\<open>generate_analysis_report\<close> returns that object, its own entries unchanged and in
  their order, followed by each missing required key mapped to \<^verbatim>\<open>["N/A"]\<close>; this report
  is not the mock report.
\<close>

theorem partial_repair:
  assumes "\<not> unconfigured self"
    and "known_provider (provider self)"
    and "chat (the (client self)) (the (model_id self)) (generate_prompt dumps company_data) = Inr (Some t)"
    and "t \<noteq> []"
    and "parse_llm_response loads t = Inr (Some (JObj d))"
    and "d \<noteq> []"
    and "\<not> set required_keys \<subseteq> set (dict_keys d)"
  shows "snd (generate_analysis_report loads dumps chat self company_data) =
           JObj (d @ map (\<lambda>k. (k, JArr [JStr ''N/A'']))
                        (filter (\<lambda>k. k \<notin> set (dict_keys d)) required_keys))
         \<and> snd (generate_analysis_report loads dumps chat self company_data) \<noteq> generate_mock_report"
proof -
  have v: "validate_analysis (JObj d) =
             ([StWarning ''LLM response missing some expected analysis keys. Results might be incomplete.''],
              Inr (JObj (fill_missing d)))"
    using assms(7) by (simp add: validate_analysis_def all_keys_in_dict)
  have r: "snd (generate_analysis_report loads dumps chat self company_data) = JObj (fill_missing d)"
    using assms(1-6) v
    by (simp add: generate_analysis_report_def analysis_try_def str_truthy_def)
  obtain k where k: "k \<in> set required_keys" "k \<notin> set (dict_keys d)"
    using assms(7) by auto
  then have "map_of (fill_missing d) k = Some (JArr [JStr ''N/A''])"
    by (simp add: map_of_fill_missing)
  then have "JObj (fill_missing d) \<noteq> generate_mock_report"
    using mock_value_not_placeholder [OF k(1)] by metis
  then show ?thesis
    using r by (simp add: fill_missing_append)
qed

theorem partial_repair_witness:
  \<open>\<not> unconfigured openai_agent \<and> known_provider (provider openai_agent) \<and>
   parse_llm_response json_loads ''{"strengths":["x"]}'' =
     Inr (Some (JObj [(''strengths'', JArr [JStr ''x''])])) \<and>
   \<not> set required_keys \<subseteq> set (dict_keys [(''strengths'', JArr [JStr ''x''])]) \<and>
   snd (generate_analysis_report json_loads json_dumps (answers ''{"strengths":["x"]}'') openai_agent []) =
     JObj [(''strengths'', JArr [JStr ''x'']),
           (''weaknesses'', JArr [JStr ''N/A'']), (''opportunities'', JArr [JStr ''N/A'']),
           (''market_gaps'', JArr [JStr ''N/A'']), (''pricing_strategies'', JArr [JStr ''N/A'']),
           (''growth_opportunities'', JArr [JStr ''N/A'']), (''recommendations'', JArr [JStr ''N/A''])] \<and>
   snd (generate_analysis_report json_loads json_dumps (answers ''{"strengths":["x"]}'') openai_agent []) \<noteq>
     generate_mock_report\<close>
proof -
  have a: \<open>answers ''{"strengths":["x"]}'' (the (client openai_agent)) (the (model_id openai_agent))
             (generate_prompt json_dumps []) = Inr (Some ''{"strengths":["x"]}'')\<close>
    by (simp add: answers_def)
  have t: \<open>''{"strengths":["x"]}'' \<noteq> []\<close>
    by simp
  have p: \<open>parse_llm_response json_loads ''{"strengths":["x"]}'' =
             Inr (Some (JObj [(''strengths'', JArr [JStr ''x''])]))\<close>
    by code_simp
  have d: "[(''strengths'', JArr [JStr ''x''])] \<noteq> []"
    by simp
  have m: "\<not> set required_keys \<subseteq> set (dict_keys [(''strengths'', JArr [JStr ''x''])])"
    by (simp add: required_keys_def dict_keys_def)
  have e: "[(''strengths'', JArr [JStr ''x''])] @
             map (\<lambda>k. (k, JArr [JStr ''N/A'']))
               (filter (\<lambda>k. k \<notin> set (dict_keys [(''strengths'', JArr [JStr ''x''])])) required_keys) =
           [(''strengths'', JArr [JStr ''x'']),
            (''weaknesses'', JArr [JStr ''N/A'']), (''opportunities'', JArr [JStr ''N/A'']),
            (''market_gaps'', JArr [JStr ''N/A'']), (''pricing_strategies'', JArr [JStr ''N/A'']),
            (''growth_opportunities'', JArr [JStr ''N/A'']), (''recommendations'', JArr [JStr ''N/A''])]"
    by (simp add: required_keys_def dict_keys_def)
  note r = partial_repair [where chat = \<open>answers ''{"strengths":["x"]}''\<close> and self = openai_agent
        and dumps = json_dumps and company_data = "[]" and loads = json_loads,
        OF openai_agent_ready a t p d m, unfolded e]
  show ?thesis
    using openai_agent_ready p m r by blast
qed

text \<open>
  Claim C5 as stated fails on the empty object: \<^verbatim>\<open>{}\<close> decodes to a JSON object that lacks
  all seven keys, and the report is the mock report.
\<close>

theorem empty_object_gives_mock:
  \<open>parse_llm_response json_loads ''{}'' = Inr (Some (JObj [])) \<and>
   snd (generate_analysis_report json_loads json_dumps (answers ''{}'') openai_agent []) =
     generate_mock_report\<close>
  by code_simp

lemma rows_create_comparison_table:
  "rows (create_comparison_table cs) = map comparison_row cs"
  by (simp add: create_comparison_table_def Let_def)

text \<open>
  Claim C9, as amended. For every record, with or without a description and a summary,
  the table has one row per record, and the Description and the Summary of the row are,
  each on its own, the first 100 characters of the value followed by the marker \<^verbatim>\<open>...\<close>,
  which is appended always: a value of 100 characters or more gives a field of exactly
  103 characters (so does one of 250), a value of 100 characters or fewer is emitted
  whole, followed by the marker, and an absent value gives \<^verbatim>\<open>N/A...\<close>.
\<close>

theorem row_truncation:
  assumes "i < length cs"
  shows "length (rows (create_comparison_table cs)) = length cs
       \<and> (\<forall>d. description (cs ! i) = Some d \<longrightarrow>
             Description (rows (create_comparison_table cs) ! i) = take 100 d @ ''...''
           \<and> (100 \<le> length d \<longrightarrow> length (Description (rows (create_comparison_table cs) ! i)) = 103)
           \<and> (length d \<le> 100 \<longrightarrow> Description (rows (create_comparison_table cs) ! i) = d @ ''...''))
       \<and> (description (cs ! i) = None \<longrightarrow>
             Description (rows (create_comparison_table cs) ! i) = ''N/A...'')
       \<and> (\<forall>s. summary (cs ! i) = Some s \<longrightarrow>
             Summary (rows (create_comparison_table cs) ! i) = take 100 s @ ''...''
           \<and> (100 \<le> length s \<longrightarrow> length (Summary (rows (create_comparison_table cs) ! i)) = 103)
           \<and> (length s \<le> 100 \<longrightarrow> Summary (rows (create_comparison_table cs) ! i) = s @ ''...''))
       \<and> (summary (cs ! i) = None \<longrightarrow>
             Summary (rows (create_comparison_table cs) ! i) = ''N/A...'')"
  using assms
  by (simp add: rows_create_comparison_table comparison_row_def Let_def get_or_def min_def)

theorem row_truncation_witness:
  "(0::nat) < length [\<lparr>name = Some ''A'', url = None,
                        description = Some (replicate 250 (CHR ''a'')),
                        summary = None, metadata = None\<rparr>,
                      candidate ''B'' ''https://b.com'' ''abc''] \<and>
   length (rows (create_comparison_table
             [\<lparr>name = Some ''A'', url = None, description = Some (replicate 250 (CHR ''a'')),
               summary = None, metadata = None\<rparr>,
              candidate ''B'' ''https://b.com'' ''abc''])) = 2 \<and>
   length (Description (rows (create_comparison_table
             [\<lparr>name = Some ''A'', url = None, description = Some (replicate 250 (CHR ''a'')),
               summary = None, metadata = None\<rparr>,
              candidate ''B'' ''https://b.com'' ''abc'']) ! 0)) = 103 \<and>
   Summary (rows (create_comparison_table
             [\<lparr>name = Some ''A'', url = None, description = Some (replicate 250 (CHR ''a'')),
               summary = None, metadata = None\<rparr>,
              candidate ''B'' ''https://b.com'' ''abc'']) ! 0) = ''N/A...'' \<and>
   Description (rows (create_comparison_table
             [\<lparr>name = Some ''A'', url = None, description = Some (replicate 250 (CHR ''a'')),
               summary = None, metadata = None\<rparr>,
              candidate ''B'' ''https://b.com'' ''abc'']) ! 1) = ''abc...''"
  using row_truncation [of 0 "[\<lparr>name = Some ''A'', url = None,
                        description = Some (replicate 250 (CHR ''a'')),
                        summary = None, metadata = None\<rparr>,
                      candidate ''B'' ''https://b.com'' ''abc'']"]
    row_truncation [of 1 "[\<lparr>name = Some ''A'', url = None,
                        description = Some (replicate 250 (CHR ''a'')),
                        summary = None, metadata = None\<rparr>,
                      candidate ''B'' ''https://b.com'' ''abc'']"]
  by (simp add: candidate_def)

text \<open>
  Claim C9 as stated fails: the description \<^verbatim>\<open>abc\<close> is within the budget and is emitted as
  \<^verbatim>\<open>abc...\<close>, not unchanged.
\<close>

theorem short_description_gets_marker:
  "Description (rows (create_comparison_table [candidate ''A'' ''https://a.com'' ''abc'']) ! 0) = ''abc...''
   \<and> Description (rows (create_comparison_table [candidate ''A'' ''https://a.com'' ''abc'']) ! 0) \<noteq> ''abc''"
  by (simp add: rows_create_comparison_table comparison_row_def candidate_def get_or_def)

text \<open>
  Claim C3 on the code: with a URL as input, the exception of the first crawl call leaves
  \<^verbatim>\<open>discover_competitors\<close>; the call is outside every \<^verbatim>\<open>try\<close>.
\<close>

theorem initial_crawl_exception_escapes:
  "discover_competitors (crawl_unreachable ''https://example.com'') summarize_content
     (find_similar_companies 5) ''https://example.com'' True =
   ([CrawlCall ''https://example.com''], Inl (Failure ''connection refused''))"
  by (simp add: discover_competitors_def has_scheme_def crawl_unreachable_def)

section \<open>Enrichment of the candidates\<close>

lemma snd_enrich_one:
  "snd (enrich_one crawl summarize n i c) =
     (if str_truthy (url c) then
        (case crawl (the (url c)) of
           Inl e \<Rightarrow> crawl_failed c
         | Inr cd \<Rightarrow>
             (case summarize (get_or (cd_content cd) []) of
                Inl e \<Rightarrow> crawl_failed c
              | Inr s \<Rightarrow> c\<lparr>summary := Some s,
                             metadata := Some (get_or (cd_metadata cd) empty_metadata)\<rparr>))
      else c\<lparr>summary := Some ''No URL provided'', metadata := Some empty_metadata\<rparr>)"
  by (simp add: enrich_one_def Let_def split: sum.splits)

lemma snd_enrich_one_index:
  "snd (enrich_one crawl summarize n i c) = snd (enrich_one crawl summarize 0 0 c)"
  by (simp add: snd_enrich_one)

lemma snd_enrich_loop:
  "snd (enrich_loop crawl summarize n i cs acc) =
     acc @ map (\<lambda>c. snd (enrich_one crawl summarize 0 0 c)) cs"
proof (induction cs arbitrary: i acc)
  case Nil
  then show ?case by simp
next
  case (Cons c cs)
  show ?case
    using Cons.IH [of "Suc i" "acc @ [snd (enrich_one crawl summarize n i c)]"]
      snd_enrich_one_index [of crawl summarize n i c]
    by (simp add: split_beta)
qed

lemma enriched_fields:
  "name (snd (enrich_one crawl summarize n i c)) = name c
   \<and> url (snd (enrich_one crawl summarize n i c)) = url c
   \<and> description (snd (enrich_one crawl summarize n i c)) = description c"
  by (simp add: snd_enrich_one crawl_failed_def split: sum.splits)

lemma discover_reaches_search:
  assumes "is_url \<longrightarrow> has_scheme input_text \<and> crawl input_text = Inr company_data"
    and "descr = (if is_url
                  then (if get_or (cd_description company_data) [] = []
                        then get_or (cd_title company_data) []
                        else get_or (cd_description company_data) [])
                  else input_text)"
  shows "discover_competitors crawl summarize find_similar input_text is_url =
           search_and_enrich crawl summarize find_similar
             (if is_url
              then (if get_or (cd_description company_data) [] = []
                    then [CrawlCall input_text,
                          StWarning ''Could not extract description from website for competitor search.'']
                    else [CrawlCall input_text])
              else [])
             descr"
  using assms by (simp add: discover_competitors_def Let_def)

lemma snd_search_and_enrich:
  assumes "descr \<noteq> []" and "find_similar descr = Inr cs"
  shows "snd (search_and_enrich crawl summarize find_similar pre descr) =
           Inr (map (\<lambda>c. snd (enrich_one crawl summarize 0 0 c)) cs)"
  using assms snd_enrich_loop [of crawl summarize "length cs" 0 cs "[]"]
  by (simp add: search_and_enrich_def Let_def split_beta)

lemma three_candidates:
  "find_similar_companies 3 ''widgets'' =
     Inr [candidate ''CompetitorA'' ''https://competitora.com'' ''A leading provider in the industry'',
          candidate ''CompetitorB'' ''https://competitorb.com'' ''An innovative startup disrupting the market'',
          candidate ''CompetitorC'' ''https://competitorc.com'' ''A well-established player with global reach'']"
  by (simp add: find_similar_companies_def py_prefix_def)

text \<open>
  Claim C4. Whenever \<^verbatim>\<open>discover_competitors\<close> reaches the enrichment (from a description,
  or from a URL whose page was crawled) with the candidates \<open>cs\<close>, and the crawl of
  candidate \<open>i\<close> raises, it returns one record per candidate, in the order of the
  candidates and with their name, URL and description; the record of candidate \<open>i\<close> has
  the summary \<^verbatim>\<open>Crawling failed\<close> and empty metadata; every candidate with a URL whose
  crawl and summary succeed has that summary and the metadata of its page; a candidate
  without a URL has the summary \<^verbatim>\<open>No URL provided\<close>.
\<close>

theorem crawl_failure_is_isolated:
  assumes "is_url \<longrightarrow> has_scheme input_text \<and> crawl input_text = Inr company_data"
    and "descr = (if is_url
                  then (if get_or (cd_description company_data) [] = []
                        then get_or (cd_title company_data) []
                        else get_or (cd_description company_data) [])
                  else input_text)"
    and "descr \<noteq> []" and "find_similar descr = Inr cs"
    and "i < length cs" and "url (cs ! i) = Some u" and "u \<noteq> []" and "crawl u = Inl e"
  shows "\<exists>out. snd (discover_competitors crawl summarize find_similar input_text is_url) = Inr out
           \<and> length out = length cs
           \<and> summary (out ! i) = Some ''Crawling failed''
           \<and> metadata (out ! i) = Some \<lparr>technologies = None, team_size = None, founded = None\<rparr>
           \<and> (\<forall>j < length cs. name (out ! j) = name (cs ! j) \<and> url (out ! j) = url (cs ! j)
                  \<and> description (out ! j) = description (cs ! j))
           \<and> (\<forall>j < length cs. \<forall>v cd s.
                  url (cs ! j) = Some v \<and> v \<noteq> [] \<and> crawl v = Inr cd
                  \<and> summarize (get_or (cd_content cd) []) = Inr s
                  \<longrightarrow> summary (out ! j) = Some s
                      \<and> metadata (out ! j) =
                          Some (get_or (cd_metadata cd)
                                  \<lparr>technologies = None, team_size = None, founded = None\<rparr>))
           \<and> (\<forall>j < length cs. url (cs ! j) = None \<or> url (cs ! j) = Some []
                  \<longrightarrow> summary (out ! j) = Some ''No URL provided''
                      \<and> metadata (out ! j) =
                          Some \<lparr>technologies = None, team_size = None, founded = None\<rparr>)"
proof -
  let ?out = "map (\<lambda>c. snd (enrich_one crawl summarize 0 0 c)) cs"
  have r: "snd (discover_competitors crawl summarize find_similar input_text is_url) = Inr ?out"
    unfolding discover_reaches_search
                [where find_similar = find_similar and summarize = summarize and crawl = crawl
                   and is_url = is_url and input_text = input_text
                   and company_data = company_data and descr = descr, OF assms(1) assms(2)]
    by (rule snd_search_and_enrich [where find_similar = find_similar, OF assms(3) assms(4)])
  have f: "?out ! i = crawl_failed (cs ! i)"
    using assms(5-8) by (simp add: snd_enrich_one str_truthy_def)
  have k: "\<forall>j < length cs. name (?out ! j) = name (cs ! j) \<and> url (?out ! j) = url (cs ! j)
             \<and> description (?out ! j) = description (cs ! j)"
    by (simp add: enriched_fields)
  have g: "\<forall>j < length cs. \<forall>v cd s.
             url (cs ! j) = Some v \<and> v \<noteq> [] \<and> crawl v = Inr cd
             \<and> summarize (get_or (cd_content cd) []) = Inr s
             \<longrightarrow> summary (?out ! j) = Some s
                 \<and> metadata (?out ! j) =
                     Some (get_or (cd_metadata cd)
                             \<lparr>technologies = None, team_size = None, founded = None\<rparr>)"
    by (simp add: snd_enrich_one str_truthy_def empty_metadata_def)
  have h: "\<forall>j < length cs. url (cs ! j) = None \<or> url (cs ! j) = Some []
             \<longrightarrow> summary (?out ! j) = Some ''No URL provided''
                 \<and> metadata (?out ! j) =
                     Some \<lparr>technologies = None, team_size = None, founded = None\<rparr>"
    by (auto simp: snd_enrich_one str_truthy_def empty_metadata_def)
  show ?thesis
    using r f k g h
    by (intro exI [of _ ?out]) (simp add: crawl_failed_def empty_metadata_def)
qed

theorem crawl_failure_is_isolated_witness:
  "snd (discover_competitors (crawl_unreachable ''https://competitorb.com'') summarize_content
          (find_similar_companies 3) ''widgets'' False) =
     Inr [(candidate ''CompetitorA'' ''https://competitora.com'' ''A leading provider in the industry'')
            \<lparr>summary := Some ''This company provides various products and services in the technology sector, focusing on innovation and customer satisfaction.'',
             metadata := Some \<lparr>technologies = Some [''React'', ''AWS'', ''MongoDB''],
                                team_size = Some ''50-200'', founded = Some ''2015''\<rparr>\<rparr>,
          (candidate ''CompetitorB'' ''https://competitorb.com'' ''An innovative startup disrupting the market'')
            \<lparr>summary := Some ''Crawling failed'',
             metadata := Some \<lparr>technologies = None, team_size = None, founded = None\<rparr>\<rparr>,
          (candidate ''CompetitorC'' ''https://competitorc.com'' ''A well-established player with global reach'')
            \<lparr>summary := Some ''This company provides various products and services in the technology sector, focusing on innovation and customer satisfaction.'',
             metadata := Some \<lparr>technologies = Some [''React'', ''AWS'', ''MongoDB''],
                                team_size = Some ''50-200'', founded = Some ''2015''\<rparr>\<rparr>]"
proof -
  let ?cs = "[candidate ''CompetitorA'' ''https://competitora.com'' ''A leading provider in the industry'',
              candidate ''CompetitorB'' ''https://competitorb.com'' ''An innovative startup disrupting the market'',
              candidate ''CompetitorC'' ''https://competitorc.com'' ''A well-established player with global reach'']"
  let ?cd = "\<lparr>cd_url = None, cd_title = None, cd_description = None, cd_content = None, cd_metadata = None\<rparr>"
  have h0: "False \<longrightarrow> has_scheme ''widgets''
              \<and> crawl_unreachable ''https://competitorb.com'' ''widgets'' = Inr ?cd"
    by simp
  have h2: "''widgets'' = (if False
                  then (if get_or (cd_description ?cd) [] = []
                        then get_or (cd_title ?cd) []
                        else get_or (cd_description ?cd) [])
                  else ''widgets'')"
    by simp
  have h1: "''widgets'' \<noteq> []" by simp
  have h3: "(1::nat) < length ?cs" by simp
  have h4: "url (?cs ! 1) = Some ''https://competitorb.com''" by (simp add: candidate_def)
  have h5: "''https://competitorb.com'' \<noteq> []" by simp
  have h6: "crawl_unreachable ''https://competitorb.com'' ''https://competitorb.com'' =
              Inl (Failure ''connection refused'')"
    by (simp add: crawl_unreachable_def)
  have ca: "crawl_unreachable ''https://competitorb.com'' ''https://competitora.com'' =
              crawl_website ''https://competitora.com''"
    and cc: "crawl_unreachable ''https://competitorb.com'' ''https://competitorc.com'' =
              crawl_website ''https://competitorc.com''"
    by (simp_all add: crawl_unreachable_def)
  have wa: "\<exists>t. crawl_website ''https://competitora.com'' =
              Inr \<lparr>cd_url = Some ''https://competitora.com'', cd_title = t,
                   cd_description = Some ''A company specializing in services and products.'',
                   cd_content = Some ''Lorem ipsum dolor sit amet, consectetur adipiscing elit. Sed do eiusmod tempor incididunt ut labore et dolore magna aliqua.'',
                   cd_metadata = Some \<lparr>technologies = Some [''React'', ''AWS'', ''MongoDB''],
                                       team_size = Some ''50-200'', founded = Some ''2015''\<rparr>\<rparr>"
    by (simp add: crawl_website_def)
  have wc: "\<exists>t. crawl_website ''https://competitorc.com'' =
              Inr \<lparr>cd_url = Some ''https://competitorc.com'', cd_title = t,
                   cd_description = Some ''A company specializing in services and products.'',
                   cd_content = Some ''Lorem ipsum dolor sit amet, consectetur adipiscing elit. Sed do eiusmod tempor incididunt ut labore et dolore magna aliqua.'',
                   cd_metadata = Some \<lparr>technologies = Some [''React'', ''AWS'', ''MongoDB''],
                                       team_size = Some ''50-200'', founded = Some ''2015''\<rparr>\<rparr>"
    by (simp add: crawl_website_def)
  from crawl_failure_is_isolated
         [where find_similar = "find_similar_companies 3" and summarize = summarize_content
            and crawl = "crawl_unreachable ''https://competitorb.com''"
            and u = "''https://competitorb.com''" and i = 1 and descr = "''widgets''"
            and input_text = "''widgets''" and is_url = False and company_data = ?cd,
          OF h0 h2 h1 three_candidates h3 h4 h5 h6]
  obtain out where
    o: "snd (discover_competitors (crawl_unreachable ''https://competitorb.com'') summarize_content
              (find_similar_companies 3) ''widgets'' False) = Inr out"
    and l: "length out = length ?cs"
    and s: "summary (out ! 1) = Some ''Crawling failed''"
    and m: "metadata (out ! 1) = Some \<lparr>technologies = None, team_size = None, founded = None\<rparr>"
    and k: "\<forall>j < length ?cs. name (out ! j) = name (?cs ! j) \<and> url (out ! j) = url (?cs ! j)
              \<and> description (out ! j) = description (?cs ! j)"
    and g: "\<forall>j < length ?cs. \<forall>v cd s.
              url (?cs ! j) = Some v \<and> v \<noteq> []
              \<and> crawl_unreachable ''https://competitorb.com'' v = Inr cd
              \<and> summarize_content (get_or (cd_content cd) []) = Inr s
              \<longrightarrow> summary (out ! j) = Some s
                  \<and> metadata (out ! j) =
                      Some (get_or (cd_metadata cd)
                              \<lparr>technologies = None, team_size = None, founded = None\<rparr>)"
    by blast
  obtain a b c where abc: "out = [a, b, c]"
    using l by (cases out; cases "tl out"; cases "tl (tl out)"; cases "tl (tl (tl out))") auto
  have kb: "name b = Some ''CompetitorB'' \<and> url b = Some ''https://competitorb.com''
            \<and> description b = Some ''An innovative startup disrupting the market''"
    using k [rule_format, of 1] abc by (simp add: candidate_def)
  have ka: "name a = Some ''CompetitorA'' \<and> url a = Some ''https://competitora.com''
            \<and> description a = Some ''A leading provider in the industry''"
    using k [rule_format, of 0] abc by (simp add: candidate_def)
  have kc: "name c = Some ''CompetitorC'' \<and> url c = Some ''https://competitorc.com''
            \<and> description c = Some ''A well-established player with global reach''"
    using k [rule_format, of 2] abc by (simp add: candidate_def)
  have ga: "summary a = Some ''This company provides various products and services in the technology sector, focusing on innovation and customer satisfaction.''
            \<and> metadata a = Some \<lparr>technologies = Some [''React'', ''AWS'', ''MongoDB''],
                                 team_size = Some ''50-200'', founded = Some ''2015''\<rparr>"
    using wa g [rule_format, of 0 "''https://competitora.com''"] abc ca
    by (auto simp: candidate_def summarize_content_def get_or_def)
  have gc: "summary c = Some ''This company provides various products and services in the technology sector, focusing on innovation and customer satisfaction.''
            \<and> metadata c = Some \<lparr>technologies = Some [''React'', ''AWS'', ''MongoDB''],
                                 team_size = Some ''50-200'', founded = Some ''2015''\<rparr>"
    using wc g [rule_format, of 2 "''https://competitorc.com''"] abc cc
    by (auto simp: candidate_def summarize_content_def get_or_def)
  show ?thesis
    unfolding o abc using ka kb kc ga gc s m abc
    by (simp add: candidate_def)
qed

lemma progress_of_append:
  "progress_of (xs @ ys) = progress_of xs @ progress_of ys"
  by (induction xs rule: progress_of.induct) simp_all

lemma progress_of_concat:
  "progress_of (concat xss) = concat (map progress_of xss)"
  by (induction xss) (simp_all add: progress_of_append)

lemma enrich_one_turn:
  "\<exists>rest. fst (enrich_one crawl summarize n i c) =
             Progress (of_nat (i + 1) / of_nat n) (progress_text c i n) # rest
         \<and> progress_of rest = []
         \<and> (\<forall>u. url c = Some u \<and> u \<noteq> [] \<longrightarrow> (\<exists>rest'. rest = CrawlCall u # rest'))"
  by (auto simp: enrich_one_def progress_text_def Let_def str_truthy_def split: sum.splits option.splits)

lemma progress_enrich_one:
  "progress_of (fst (enrich_one crawl summarize n i c)) =
     [(of_nat (i + 1) / of_nat n, progress_text c i n)]"
  using enrich_one_turn [of crawl summarize n i c] by auto

lemma fst_enrich_loop:
  "fst (enrich_loop crawl summarize n i cs acc) =
     concat (map (\<lambda>j. fst (enrich_one crawl summarize n (i + j) (cs ! j))) [0..<length cs])"
proof (induction cs arbitrary: i acc)
  case Nil
  then show ?case by simp
next
  case (Cons c cs)
  show ?case
    using Cons.IH [of "Suc i" "acc @ [snd (enrich_one crawl summarize n i c)]"]
    by (simp add: split_beta map_upt_Suc del: upt_Suc)
qed

lemma sorted_fractions:
  "sorted (map (\<lambda>i. (of_nat (i + 1) / of_nat n :: rat)) [0..<n])"
proof -
  have "sorted_wrt (\<lambda>x y. (of_nat (x + 1) / of_nat n :: rat) \<le> of_nat (y + 1) / of_nat n) [0..<n]"
    by (rule sorted_wrt_mono_rel [of _ "(\<le>)"]) (auto simp: divide_right_mono)
  then show ?thesis
    by (simp add: sorted_map)
qed

lemma search_and_enrich_events:
  assumes "descr \<noteq> []" and "find_similar descr = Inr cs"
  shows "fst (search_and_enrich crawl summarize find_similar pre descr) =
           (if cs = [] then
              pre @ [SearchCall descr, Progress 0 ''Crawling competitor websites...'',
                     Progress 1 ''No competitors found to crawl.'']
            else
              pre @ [SearchCall descr, Progress 0 ''Crawling competitor websites...''] @
              concat (map (\<lambda>i. fst (enrich_one crawl summarize (length cs) i (cs ! i)))
                        [0..<length cs]) @
              [Progress 1 ''Competitor crawling complete.''])"
  using assms fst_enrich_loop [of crawl summarize "length cs" 0 cs "[]"]
  by (simp add: search_and_enrich_def Let_def split_beta)

lemma one_candidate:
  "find_similar_companies 1 ''widgets'' =
     Inr [candidate ''CompetitorA'' ''https://competitora.com'' ''A leading provider in the industry'']"
  by (simp add: find_similar_companies_def py_prefix_def)

text \<open>
  Claim C10, as amended. Whenever \<^verbatim>\<open>discover_competitors\<close> reaches the enrichment with
  \<open>n\<close> candidates, the events are those before the search, the search, an initial progress
  signal of fraction 0 and, for a non-empty list, the turns of the candidates in order
  followed by a last signal of fraction 1. The turn of candidate \<open>i\<close> starts with its one
  progress signal, of fraction \<open>(i + 1) / n\<close> and with a label that names the candidate and
  \<open>i + 1\<close> of \<open>n\<close>; the signal comes before the crawl of that candidate, not after it. The
  fractions never decrease and the last one is 1. For an empty list the signals are the
  initial one and one terminal signal of fraction 1, and the result is the empty list.
\<close>

theorem progress_signals:
  assumes "is_url \<longrightarrow> has_scheme input_text \<and> crawl input_text = Inr company_data"
    and "descr = (if is_url
                  then (if get_or (cd_description company_data) [] = []
                        then get_or (cd_title company_data) []
                        else get_or (cd_description company_data) [])
                  else input_text)"
    and "descr \<noteq> []" and "find_similar descr = Inr cs"
  shows "let n = length cs;
             evs = fst (discover_competitors crawl summarize find_similar input_text is_url);
             turn = (\<lambda>i. fst (enrich_one crawl summarize n i (cs ! i)));
             pre = (if is_url
                    then (if get_or (cd_description company_data) [] = []
                          then [CrawlCall input_text,
                                StWarning ''Could not extract description from website for competitor search.'']
                          else [CrawlCall input_text])
                    else [])
         in (cs = [] \<longrightarrow>
               evs = pre @ [SearchCall descr, Progress 0 ''Crawling competitor websites...'',
                            Progress 1 ''No competitors found to crawl.'']
               \<and> progress_of evs = [(0, ''Crawling competitor websites...''),
                                     (1, ''No competitors found to crawl.'')]
               \<and> snd (discover_competitors crawl summarize find_similar input_text is_url) = Inr [])
          \<and> (cs \<noteq> [] \<longrightarrow>
               evs = pre @ [SearchCall descr, Progress 0 ''Crawling competitor websites...''] @
                     concat (map turn [0..<n]) @ [Progress 1 ''Competitor crawling complete.'']
               \<and> progress_of evs =
                   (0, ''Crawling competitor websites...'') #
                   map (\<lambda>i. (of_nat (i + 1) / of_nat n,
                              ''Crawling '' @ get_or (name (cs ! i)) ''Unknown'' @ '' ('' @
                              string_of_nat (i + 1) @ ''/'' @ string_of_nat n @ '')...'')) [0..<n] @
                   [(1, ''Competitor crawling complete.'')])
          \<and> (\<forall>i < n. \<exists>rest.
                 turn i = Progress (of_nat (i + 1) / of_nat n)
                            (''Crawling '' @ get_or (name (cs ! i)) ''Unknown'' @ '' ('' @
                             string_of_nat (i + 1) @ ''/'' @ string_of_nat n @ '')...'') # rest
                 \<and> progress_of rest = []
                 \<and> (\<forall>u. url (cs ! i) = Some u \<and> u \<noteq> [] \<longrightarrow> (\<exists>rest'. rest = CrawlCall u # rest')))
          \<and> sorted (map fst (progress_of evs))
          \<and> fst (last (progress_of evs)) = 1"
proof -
  let ?n = "length cs"
  let ?evs = "fst (discover_competitors crawl summarize find_similar input_text is_url)"
  let ?turn = "\<lambda>i. fst (enrich_one crawl summarize ?n i (cs ! i))"
  let ?pre = "if is_url
              then (if get_or (cd_description company_data) [] = []
                    then [CrawlCall input_text,
                          StWarning ''Could not extract description from website for competitor search.'']
                    else [CrawlCall input_text])
              else []"
  have d: "discover_competitors crawl summarize find_similar input_text is_url =
             search_and_enrich crawl summarize find_similar ?pre descr"
    by (rule discover_reaches_search
               [where crawl = crawl and is_url = is_url and input_text = input_text
                  and company_data = company_data and descr = descr, OF assms(1) assms(2)])
  have pp: "progress_of ?pre = []"
    by simp
  have t: "\<forall>i < ?n. \<exists>rest.
             ?turn i = Progress (of_nat (i + 1) / of_nat ?n)
                         (''Crawling '' @ get_or (name (cs ! i)) ''Unknown'' @ '' ('' @
                          string_of_nat (i + 1) @ ''/'' @ string_of_nat ?n @ '')...'') # rest
             \<and> progress_of rest = []
             \<and> (\<forall>u. url (cs ! i) = Some u \<and> u \<noteq> [] \<longrightarrow> (\<exists>rest'. rest = CrawlCall u # rest'))"
    using enrich_one_turn [of crawl summarize ?n] by (simp add: progress_text_def)
  show ?thesis
  proof (cases "cs = []")
    case True
    have e: "?evs = ?pre @ [SearchCall descr, Progress 0 ''Crawling competitor websites...'',
                            Progress 1 ''No competitors found to crawl.'']"
      unfolding d using True assms(4)
      by (simp add: search_and_enrich_events [where find_similar = find_similar, OF assms(3) assms(4)])
    have r: "snd (discover_competitors crawl summarize find_similar input_text is_url) = Inr []"
      unfolding d using True
      by (simp add: snd_search_and_enrich [where find_similar = find_similar, OF assms(3) assms(4)])
    have p: "progress_of ?evs = [(0, ''Crawling competitor websites...''),
                                 (1, ''No competitors found to crawl.'')]"
      unfolding e progress_of_append pp by simp
    show ?thesis
      using True e r p by (simp add: Let_def)
  next
    case False
    have e: "?evs = ?pre @ [SearchCall descr, Progress 0 ''Crawling competitor websites...''] @
                    concat (map ?turn [0..<?n]) @ [Progress 1 ''Competitor crawling complete.'']"
      unfolding d using False
      by (simp add: search_and_enrich_events [where find_similar = find_similar, OF assms(3) assms(4)])
    have p: "progress_of ?evs =
               (0, ''Crawling competitor websites...'') #
               map (\<lambda>i. (of_nat (i + 1) / of_nat ?n,
                          ''Crawling '' @ get_or (name (cs ! i)) ''Unknown'' @ '' ('' @
                          string_of_nat (i + 1) @ ''/'' @ string_of_nat ?n @ '')...'')) [0..<?n] @
               [(1, ''Competitor crawling complete.'')]"
      unfolding e progress_of_append pp
      by (simp add: progress_of_append progress_of_concat comp_def progress_enrich_one
                    progress_text_def del: upt_Suc)
    have b: "\<forall>x \<in> set (map (\<lambda>i. (of_nat (i + 1) / of_nat ?n :: rat)) [0..<?n]). 0 \<le> x \<and> x \<le> 1"
      by (auto simp: divide_simps)
    have s: "sorted (map fst (progress_of ?evs))"
      unfolding p using b sorted_fractions [of ?n]
      by (simp add: comp_def sorted_append del: upt_Suc)
    have l: "fst (last (progress_of ?evs)) = 1"
      unfolding p by simp
    show ?thesis
      using False e p s l t by (simp add: Let_def del: upt_Suc)
  qed
qed

theorem progress_signals_witness:
  "''widgets'' \<noteq> [] \<and>
   progress_of (fst (discover_competitors crawl_website summarize_content (find_similar_companies 3)
                       ''widgets'' False)) =
     [(0, ''Crawling competitor websites...''),
      (1 / 3, ''Crawling CompetitorA (1/3)...''),
      (2 / 3, ''Crawling CompetitorB (2/3)...''),
      (1, ''Crawling CompetitorC (3/3)...''),
      (1, ''Competitor crawling complete.'')] \<and>
   sorted (map fst (progress_of (fst (discover_competitors crawl_website summarize_content
                                        (find_similar_companies 3) ''widgets'' False)))) \<and>
   fst (last (progress_of (fst (discover_competitors crawl_website summarize_content
                                  (find_similar_companies 3) ''widgets'' False)))) = 1"
proof -
  let ?cd = "\<lparr>cd_url = None, cd_title = None, cd_description = None, cd_content = None, cd_metadata = None\<rparr>"
  let ?cs = "[candidate ''CompetitorA'' ''https://competitora.com'' ''A leading provider in the industry'',
              candidate ''CompetitorB'' ''https://competitorb.com'' ''An innovative startup disrupting the market'',
              candidate ''CompetitorC'' ''https://competitorc.com'' ''A well-established player with global reach'']"
  let ?evs = "fst (discover_competitors crawl_website summarize_content (find_similar_companies 3)
                     ''widgets'' False)"
  have h0: "False \<longrightarrow> has_scheme ''widgets'' \<and> crawl_website ''widgets'' = Inr ?cd"
    by simp
  have h2: "''widgets'' = (if False
                  then (if get_or (cd_description ?cd) [] = []
                        then get_or (cd_title ?cd) []
                        else get_or (cd_description ?cd) [])
                  else ''widgets'')"
    by simp
  have h1: "''widgets'' \<noteq> []" by simp
  have ne: "?cs \<noteq> []" by simp
  have n: "string_of_nat (Suc 0) = ''1''" "string_of_nat (Suc (Suc 0)) = ''2''"
    "string_of_nat (Suc (Suc (Suc 0))) = ''3''"
    by code_simp+
  note r = progress_signals
             [where find_similar = "find_similar_companies 3" and crawl = crawl_website
                and summarize = summarize_content and input_text = "''widgets''"
                and is_url = False and company_data = ?cd and descr = "''widgets''",
              OF h0 h2 h1 three_candidates, unfolded Let_def]
  note r2 = r [THEN conjunct2, THEN conjunct1, rule_format, OF ne, THEN conjunct2]
  note r4 = r [THEN conjunct2, THEN conjunct2, THEN conjunct2]
  have p: "progress_of ?evs =
             [(0, ''Crawling competitor websites...''),
              (1 / 3, ''Crawling CompetitorA (1/3)...''),
              (2 / 3, ''Crawling CompetitorB (2/3)...''),
              (1, ''Crawling CompetitorC (3/3)...''),
              (1, ''Competitor crawling complete.'')]"
    unfolding r2 by (simp add: n candidate_def get_or_def)
  show ?thesis
    using h1 p r4 by blast
qed

text \<open>
  Claim C10 as stated fails: with one candidate, the progress signal that names the
  candidate, of fraction 1, is emitted before the crawl of the candidate and not after
  it, and it is the second signal of three, after an initial signal of fraction 0.
\<close>

theorem progress_precedes_crawl:
  "fst (discover_competitors crawl_website summarize_content (find_similar_companies 1)
          ''widgets'' False) =
     [SearchCall ''widgets'',
      Progress 0 ''Crawling competitor websites...'',
      Progress 1 ''Crawling CompetitorA (1/1)...'',
      CrawlCall ''https://competitora.com'',
      SummarizeCall ''Lorem ipsum dolor sit amet, consectetur adipiscing elit. Sed do eiusmod tempor incididunt ut labore et dolore magna aliqua.'',
      Progress 1 ''Competitor crawling complete.'']"
proof -
  have n: "string_of_nat (Suc 0) = ''1''"
    by code_simp
  have c: "\<exists>t. crawl_website ''https://competitora.com'' =
              Inr \<lparr>cd_url = Some ''https://competitora.com'', cd_title = t,
                   cd_description = Some ''A company specializing in services and products.'',
                   cd_content = Some ''Lorem ipsum dolor sit amet, consectetur adipiscing elit. Sed do eiusmod tempor incididunt ut labore et dolore magna aliqua.'',
                   cd_metadata = Some \<lparr>technologies = Some [''React'', ''AWS'', ''MongoDB''],
                                       team_size = Some ''50-200'', founded = Some ''2015''\<rparr>\<rparr>"
    by (simp add: crawl_website_def)
  then obtain t where t: "crawl_website ''https://competitora.com'' =
              Inr \<lparr>cd_url = Some ''https://competitora.com'', cd_title = t,
                   cd_description = Some ''A company specializing in services and products.'',
                   cd_content = Some ''Lorem ipsum dolor sit amet, consectetur adipiscing elit. Sed do eiusmod tempor incididunt ut labore et dolore magna aliqua.'',
                   cd_metadata = Some \<lparr>technologies = Some [''React'', ''AWS'', ''MongoDB''],
                                       team_size = Some ''50-200'', founded = Some ''2015''\<rparr>\<rparr>"
    by blast
  show ?thesis
    by (simp add: discover_competitors_def search_and_enrich_def one_candidate enrich_one_def
          candidate_def get_or_def str_truthy_def summarize_content_def Let_def n t)
qed

end
